theory Spec2Isabelle
  imports Main
begin

section \<open>JavaScript values\<close>

text \<open>
  The program is TypeScript; the injected request, the header values and the handler's
  argument are typed \<^verbatim>\<open>any\<close>, so they are modelled as untyped JavaScript values.
  \<open>JNum n\<close> is an integer-valued Number (the two zeros are both \<open>JNum 0\<close>), \<open>JNaN\<close>
  is NaN; a \<open>JNum n\<close> stands for a Number of the program when \<open>\<bar>n\<bar> < 2^53\<close> (the safe
  integers, which a double holds exactly); fractional numbers, larger numbers and
  infinities are not represented. \<open>JObj m\<close> is a plain
  data object with own properties \<open>m\<close> (a missing key is an absent property) and
  \<^verbatim>\<open>Object.prototype\<close> as its prototype. Strings are lists of 8-bit code units.
\<close>

datatype jsval =
    JUndefined
  | JNull
  | JBool bool
  | JNum int
  | JNaN
  | JStr string
  | JObj "string \<Rightarrow> jsval option"

type_synonym props = "string \<rightharpoonup> jsval"

text \<open>
  What can be thrown. \<open>TypeError\<close> is the engine's own fault, with its message.
  \<open>MissingProviderError t r\<close> is the container's diagnostic: no provider for the token
  named \<open>t\<close>, required by \<open>r\<close> (spec 4.1 and 7; the README quotes the framework's
  wording for a service: \<^verbatim>\<open>Nest can't resolve dependencies of the UserService (?). Please
  make sure that the argument LoggerService at index [0] is available\<close>).
  \<open>BindingError c e\<close> is a resolution failure \<open>e\<close> with the binder's context \<open>c\<close>: the
  handler, the parameter and the decorator (spec 7).
  \<open>OutsideModel\<close> is not an error of the program: it marks a computation that has reached
  a Number this model does not represent (of magnitude \<open>2^53\<close> or more), where the engine
  goes on with a rounded double and the model says nothing.
\<close>

datatype error =
    TypeError string
  | MissingProviderError string string
  | BindingError string error
  | OutsideModel

definition quote :: "string \<Rightarrow> string" where
  "quote s = [CHR 0x27] @ s @ [CHR 0x27]"

text \<open>
  Property read \<^verbatim>\<open>v[k]\<close>. Reading from \<^verbatim>\<open>undefined\<close> or \<^verbatim>\<open>null\<close> throws; reading
  an absent property gives \<^verbatim>\<open>undefined\<close>. Inherited properties are left out: the keys
  the program reads (\<^verbatim>\<open>headers\<close>, \<^verbatim>\<open>x-user-id\<close>, \<^verbatim>\<open>id\<close>, \<^verbatim>\<open>name\<close>) are on no
  built-in prototype.
\<close>

fun get_prop :: "jsval \<Rightarrow> string \<Rightarrow> error + jsval" where
  "get_prop JUndefined k =
     Inl (TypeError (''Cannot read properties of undefined (reading '' @ quote k @ '')''))"
| "get_prop JNull k =
     Inl (TypeError (''Cannot read properties of null (reading '' @ quote k @ '')''))"
| "get_prop (JObj m) k = Inr (case m k of None \<Rightarrow> JUndefined | Some v \<Rightarrow> v)"
| "get_prop (JBool b) k = Inr JUndefined"
| "get_prop (JNum n) k = Inr JUndefined"
| "get_prop JNaN k = Inr JUndefined"
| "get_prop (JStr s) k = Inr JUndefined"

text \<open>ToBoolean: the falsy values are \<^verbatim>\<open>undefined\<close>, \<^verbatim>\<open>null\<close>, \<^verbatim>\<open>false\<close>, 0, NaN
  and the empty string.\<close>

fun truthy :: "jsval \<Rightarrow> bool" where
  "truthy JUndefined = False"
| "truthy JNull = False"
| "truthy (JBool b) = b"
| "truthy (JNum n) = (n \<noteq> 0)"
| "truthy JNaN = False"
| "truthy (JStr s) = (s \<noteq> [])"
| "truthy (JObj m) = True"

definition digit_char :: "nat \<Rightarrow> char" where
  "digit_char d = ''0123456789'' ! (d mod 10)"

fun show_nat :: "nat \<Rightarrow> string" where
  "show_nat n =
     (if n < 10 then [digit_char n] else show_nat (n div 10) @ [digit_char (n mod 10)])"

definition show_int :: "int \<Rightarrow> string" where
  "show_int i = (if i < 0 then CHR ''-'' # show_nat (nat (- i)) else show_nat (nat i))"

text \<open>
  ToString, as a template literal and \<^verbatim>\<open>parseInt\<close> apply it. A safe integer prints as
  its decimal digits; the engine prints a Number of magnitude \<open>10^21\<close> or more in exponent
  form (\<^verbatim>\<open>1e+21\<close>), which is outside the model. A plain object prints through the
  inherited \<^verbatim>\<open>toString\<close>; an own \<^verbatim>\<open>toString\<close> property hides it, and since no value of
  \<open>jsval\<close> is callable the conversion then throws.
\<close>

fun to_string :: "jsval \<Rightarrow> error + string" where
  "to_string JUndefined = Inr ''undefined''"
| "to_string JNull = Inr ''null''"
| "to_string (JBool b) = Inr (if b then ''true'' else ''false'')"
| "to_string (JNum n) =
     (if \<bar>n\<bar> < 9007199254740992 then Inr (show_int n) else Inl OutsideModel)"
| "to_string JNaN = Inr ''NaN''"
| "to_string (JStr s) = Inr s"
| "to_string (JObj m) =
     (case m ''toString'' of
        None \<Rightarrow> Inr ''[object Object]''
      | Some f \<Rightarrow> Inl (TypeError ''Cannot convert object to primitive value''))"

definition is_space :: "char \<Rightarrow> bool" where
  "is_space c = ((of_char c :: nat) \<in> set [9, 10, 11, 12, 13, 32, 160])"

definition is_digit :: "char \<Rightarrow> bool" where
  "is_digit c = (48 \<le> (of_char c :: nat) \<and> (of_char c :: nat) \<le> 57)"

definition digits_value :: "string \<Rightarrow> nat" where
  "digits_value ds = foldl (\<lambda>acc c. 10 * acc + (of_char c - 48)) 0 ds"

text \<open>
  \<^verbatim>\<open>parseInt(v, 10)\<close>: ToString, skip leading white space, an optional sign, then the
  longest run of decimal digits; NaN when there is none. The result is the integer the
  digits spell when it is a safe integer; beyond, the engine rounds to a double (and to
  Infinity in the end), which is outside the model.
\<close>

definition parseInt_10 :: "jsval \<Rightarrow> error + jsval" where
  "parseInt_10 v =
     (case to_string v of
        Inl e \<Rightarrow> Inl e
      | Inr s \<Rightarrow>
          (let t = dropWhile is_space s;
               neg = (t \<noteq> [] \<and> hd t = CHR ''-'');
               r = (if t \<noteq> [] \<and> (hd t = CHR ''-'' \<or> hd t = CHR ''+'') then tl t else t);
               z = takeWhile is_digit r
           in if z = [] then Inr JNaN
              else if int (digits_value z) < 9007199254740992
              then Inr (JNum ((if neg then - 1 else 1) * int (digits_value z)))
              else Inl OutsideModel))"

section \<open>logger.service.ts\<close>

record LoggerService =
  "context" :: props

definition LoggerService_new :: LoggerService where
  "LoggerService_new = \<lparr>context = Map.empty\<rparr>"

definition assign :: "LoggerService \<Rightarrow> props \<Rightarrow> LoggerService" where
  "assign this data = this\<lparr>context := context this ++ data\<rparr>"

text \<open>\<^verbatim>\<open>log\<close> prints the message and the context to the console: the printed pair is
  returned beside the object, which the method does not touch.\<close>

definition log :: "LoggerService \<Rightarrow> string \<Rightarrow> (string \<times> props) \<times> LoggerService" where
  "log this message = ((message, context this), this)"

section \<open>user.decorator.ts\<close>

record GetUserPipe =
  req :: jsval

text \<open>The constructor stores what is injected for \<^verbatim>\<open>REQUEST\<close> and checks nothing.\<close>

definition GetUserPipe_new :: "jsval \<Rightarrow> GetUserPipe" where
  "GetUserPipe_new r = \<lparr>req = r\<rparr>"

text \<open>\<^verbatim>\<open>transform\<close> is \<^verbatim>\<open>async\<close>: \<open>Inr\<close> is the value the promise resolves to, \<open>Inl\<close>
  the error it rejects with.\<close>

definition transform :: "GetUserPipe \<Rightarrow> jsval \<Rightarrow> error + jsval" where
  "transform this value =
     (case get_prop (req this) ''headers'' of
        Inl e \<Rightarrow> Inl e
      | Inr headers \<Rightarrow>
          (case get_prop headers ''x-user-id'' of
             Inl e \<Rightarrow> Inl e
           | Inr userId \<Rightarrow>
               if \<not> truthy userId
               then Inr (JObj [''id'' \<mapsto> JNum 0, ''name'' \<mapsto> JStr ''Anonymous''])
               else (case parseInt_10 userId of
                       Inl e \<Rightarrow> Inl e
                     | Inr n \<Rightarrow> Inr (JObj [''id'' \<mapsto> n, ''name'' \<mapsto> JStr ''Test User'']))))"

text \<open>The factory given to \<^verbatim>\<open>createParamDecorator\<close> returns its \<^verbatim>\<open>data\<close> argument;
  \<^verbatim>\<open>User()\<close> passes the pipe class and no data, so the raw value is \<^verbatim>\<open>undefined\<close>.\<close>

definition User_factory :: "jsval \<Rightarrow> 'ctx \<Rightarrow> jsval" where
  "User_factory data ctx = data"

section \<open>The test doubles of the two test files\<close>

text \<open>
  Both test modules provide \<^verbatim>\<open>{ assign: jest.fn(), log: jest.fn() }\<close> for
  \<^verbatim>\<open>LoggerService\<close>: a mock function records the argument of each call and returns
  \<^verbatim>\<open>undefined\<close>. The module of the fixed test overrides the pipe by
  \<^verbatim>\<open>{ transform: jest.fn().mockResolvedValue(v) }\<close>, whose \<^verbatim>\<open>transform\<close> resolves to \<open>v\<close>
  whatever it is given (the calls that this mock records are not modelled: nothing reads
  them). A logger is the class's instance or the mock, a pipe the class's instance or the
  stub; a call goes to the method of whichever it is.
\<close>

record MockLogger =
  assign_calls :: "props list"
  log_calls :: "string list"

definition MockLogger_new :: MockLogger where
  "MockLogger_new = \<lparr>assign_calls = [], log_calls = []\<rparr>"

datatype logger_object = RealLogger LoggerService | JestLogger MockLogger

fun logger_assign :: "logger_object \<Rightarrow> props \<Rightarrow> logger_object" where
  "logger_assign (RealLogger l) data = RealLogger (assign l data)"
| "logger_assign (JestLogger m) data = JestLogger (m\<lparr>assign_calls := assign_calls m @ [data]\<rparr>)"

datatype pipe_object = RealPipe GetUserPipe | StubPipe jsval

fun pipe_transform :: "pipe_object \<Rightarrow> jsval \<Rightarrow> error + jsval" where
  "pipe_transform (RealPipe p) value = transform p value"
| "pipe_transform (StubPipe v) value = Inr v"

section \<open>my.controller.ts\<close>

record MyController =
  logger :: logger_object

text \<open>
  \<^verbatim>\<open>getData\<close> reads \<^verbatim>\<open>user.id\<close> and \<^verbatim>\<open>user.name\<close> for the argument of
  \<^verbatim>\<open>this.logger.assign\<close>, calls it, then builds the message from \<^verbatim>\<open>user.id\<close> (read
  again, to the same value: neither logger writes to \<^verbatim>\<open>user\<close>). The method is
  \<^verbatim>\<open>async\<close>: \<open>Inr\<close> is what its promise resolves to, \<open>Inl\<close> what it rejects with. The
  controller is returned beside the result, with the logger as the method left it, also
  when the method throws.
\<close>

definition getData :: "MyController \<Rightarrow> jsval \<Rightarrow> (error + jsval) \<times> MyController" where
  "getData this user =
     (case get_prop user ''id'' of
        Inl e \<Rightarrow> (Inl e, this)
      | Inr uid \<Rightarrow>
          (case get_prop user ''name'' of
             Inl e \<Rightarrow> (Inl e, this)
           | Inr uname \<Rightarrow>
               (let this' = this\<lparr>logger :=
                      logger_assign (logger this) [''userId'' \<mapsto> uid, ''userName'' \<mapsto> uname]\<rparr>
                in case to_string uid of
                     Inl e \<Rightarrow> (Inl e, this')
                   | Inr s \<Rightarrow> (Inr (JObj [''message'' \<mapsto> JStr (''Hello user '' @ s)]), this'))))"

text \<open>
  The call \<^verbatim>\<open>controller.getData(user)\<close> on an instance of the class, given the instance's
  \<^verbatim>\<open>logger\<close> field. The constructor sets the field; on an instance whose constructor has
  not run the field is \<^verbatim>\<open>undefined\<close> (\<open>None\<close>), and line 17 throws on reading
  \<^verbatim>\<open>this.logger.assign\<close>, before the argument of the call is evaluated.
\<close>

definition call_getData ::
    "logger_object option \<Rightarrow> jsval \<Rightarrow> (error + jsval) \<times> logger_object option" where
  "call_getData this_logger user =
     (case this_logger of
        None \<Rightarrow>
          (case get_prop JUndefined ''assign'' of
             Inl e \<Rightarrow> (Inl e, None)
           | Inr f \<Rightarrow> (Inl (TypeError ''this.logger.assign is not a function''), None))
      | Some l \<Rightarrow> (case getData \<lparr>logger = l\<rparr> user of (result, this') \<Rightarrow> (result, Some (logger this'))))"

section \<open>The testing module: container, binder and dispatcher\<close>

text \<open>
  The dependency container, the parameter binder and the handler dispatcher are the
  framework's: src/ holds only their callers (\<^verbatim>\<open>Test.createTestingModule\<close>,
  \<^verbatim>\<open>overridePipe\<close>, \<^verbatim>\<open>compile\<close>, \<^verbatim>\<open>module.get\<close>, the \<^verbatim>\<open>@User()\<close> decorator). This
  section models them from the spec, and only from the spec: it is the container the
  spec describes, not a description of what the framework does.
\<close>

text \<open>Modelled from the spec: the container's tokens (spec 3), which are missing from
  src/ as values; they are the four the repository uses.\<close>

datatype token = REQUEST | LoggerService_class | GetUserPipe_class | MyController_class

fun token_name :: "token \<Rightarrow> string" where
  "token_name REQUEST = ''REQUEST''"
| "token_name LoggerService_class = ''LoggerService''"
| "token_name GetUserPipe_class = ''GetUserPipe''"
| "token_name MyController_class = ''MyController''"

text \<open>
  Modelled from the spec: a provider binds a token to a value or a class (spec 3); the
  framework's type of it is missing. An entry of the \<^verbatim>\<open>providers\<close> array of the tests
  is \<^verbatim>\<open>{ provide: REQUEST, useValue: v }\<close>, \<^verbatim>\<open>{ provide: LoggerService, useValue: l }\<close> or
  the class \<^verbatim>\<open>GetUserPipe\<close> itself; each is typed by its token, as the TypeScript
  declarations type what the token stands for. Both test modules declare
  \<^verbatim>\<open>controllers: [MyController]\<close>.
\<close>

datatype provider =
    UseValue_REQUEST jsval
  | UseValue_LoggerService logger_object
  | Class_GetUserPipe

text \<open>Modelled from the spec: what a resolution returns, one kind of instance for each
  token (the framework's \<^verbatim>\<open>module.get\<close> is missing).\<close>

datatype module_instance =
    RequestInstance jsval
  | LoggerInstance logger_object
  | PipeInstance pipe_object
  | ControllerInstance MyController

text \<open>Modelled from the spec: the configuration a container is built from, the
  registrations and the override of the pipe (spec 6); the framework's builder is
  missing.\<close>

record TestingModuleBuilder =
  builder_providers :: "provider list"
  builder_pipe_override :: "pipe_object option"

text \<open>Modelled from the spec: the two steps of a request that run code of src/ (spec 2),
  as entries of a record of what the module ran, kept so that a theorem can say what did
  not run: a call of a pipe's \<^verbatim>\<open>transform\<close> with its raw value, a call of the handler
  with its argument.\<close>

datatype event = Transformed jsval | Invoked jsval

text \<open>
  Modelled from the spec: the container (spec 2, 3), whose code is missing: the
  registrations, and the cache, one slot for each token. An instance has an identity: the
  reference it was given when it was constructed, the next unused number; a slot holds
  the instance's reference beside its state. The controller's only field refers to the
  module's logger, so its slot holds its reference and its state is the logger's slot.
\<close>

record TestingModule =
  providers :: "provider list"
  pipe_override :: "pipe_object option"
  next_ref :: nat
  request_slot :: "(nat \<times> jsval) option"
  logger_slot :: "(nat \<times> logger_object) option"
  pipe_slot :: "(nat \<times> pipe_object) option"
  controller_slot :: "nat option"
  events :: "event list"

text \<open>Modelled from the spec: \<^verbatim>\<open>Test.createTestingModule({ controllers, providers })\<close>,
  missing from src/: the registrations as given, no override (spec 6).\<close>

definition createTestingModule :: "provider list \<Rightarrow> TestingModuleBuilder" where
  "createTestingModule ps = \<lparr>builder_providers = ps, builder_pipe_override = None\<rparr>"

text \<open>Modelled from the spec: \<^verbatim>\<open>.overridePipe(GetUserPipe).useValue(p)\<close>, missing from
  src/: the override replaces the binding of the pipe's token (spec 6).\<close>

definition overridePipe :: "pipe_object \<Rightarrow> TestingModuleBuilder \<Rightarrow> TestingModuleBuilder" where
  "overridePipe p b = b\<lparr>builder_pipe_override := Some p\<rparr>"

text \<open>Modelled from the spec: \<^verbatim>\<open>.compile()\<close>, missing from src/: the container starts
  with an empty cache; instances are created on first resolution (spec 3).\<close>

definition compile :: "TestingModuleBuilder \<Rightarrow> TestingModule" where
  "compile b =
     \<lparr>providers = builder_providers b, pipe_override = builder_pipe_override b,
      next_ref = 0, request_slot = None, logger_slot = None, pipe_slot = None,
      controller_slot = None, events = []\<rparr>"

text \<open>Modelled from the spec: the lookup of a registration, missing from src/.
  Registration is last write wins (spec 4.1): the last entry for a token counts.\<close>

definition provided_REQUEST :: "provider list \<Rightarrow> jsval option" where
  "provided_REQUEST ps =
     fold (\<lambda>p found. case p of UseValue_REQUEST v \<Rightarrow> Some v | _ \<Rightarrow> found) ps None"

definition provided_LoggerService :: "provider list \<Rightarrow> logger_object option" where
  "provided_LoggerService ps =
     fold (\<lambda>p found. case p of UseValue_LoggerService l \<Rightarrow> Some l | _ \<Rightarrow> found) ps None"

definition provided_GetUserPipe :: "provider list \<Rightarrow> bool" where
  "provided_GetUserPipe ps = (Class_GetUserPipe \<in> set ps)"

text \<open>Modelled from the spec: the container's \<^verbatim>\<open>resolve\<close> for a value provider,
  missing from src/ (spec 4.1): the cached instance if there is one; else the registered
  value, which gets the next reference and is cached; \<open>MissingProviderError\<close>, naming the
  token and who required it, when nothing is registered.\<close>

definition resolve_REQUEST ::
    "TestingModule \<Rightarrow> string \<Rightarrow> (error + nat \<times> jsval) \<times> TestingModule" where
  "resolve_REQUEST m requester =
     (case request_slot m of
        Some (r, v) \<Rightarrow> (Inr (r, v), m)
      | None \<Rightarrow>
          (case provided_REQUEST (providers m) of
             None \<Rightarrow> (Inl (MissingProviderError (token_name REQUEST) requester), m)
           | Some v \<Rightarrow>
               (Inr (next_ref m, v),
                m\<lparr>request_slot := Some (next_ref m, v), next_ref := Suc (next_ref m)\<rparr>)))"

definition resolve_LoggerService ::
    "TestingModule \<Rightarrow> string \<Rightarrow> (error + nat \<times> logger_object) \<times> TestingModule" where
  "resolve_LoggerService m requester =
     (case logger_slot m of
        Some (r, l) \<Rightarrow> (Inr (r, l), m)
      | None \<Rightarrow>
          (case provided_LoggerService (providers m) of
             None \<Rightarrow> (Inl (MissingProviderError (token_name LoggerService_class) requester), m)
           | Some l \<Rightarrow>
               (Inr (next_ref m, l),
                m\<lparr>logger_slot := Some (next_ref m, l), next_ref := Suc (next_ref m)\<rparr>)))"

text \<open>
  Modelled from the spec: the container's \<^verbatim>\<open>resolve\<close> for the pipe, missing from src/
  (spec 4.1, 6): the cached instance; else the override, if there is one; else the class
  of user.decorator.ts, whose declared dependency \<^verbatim>\<open>REQUEST\<close> is resolved first, a
  failure of that resolution being the failure of this one, and whose constructor is then
  given the resolved value. The new instance gets the next reference and is cached.
\<close>

definition resolve_GetUserPipe ::
    "TestingModule \<Rightarrow> string \<Rightarrow> (error + nat \<times> pipe_object) \<times> TestingModule" where
  "resolve_GetUserPipe m requester =
     (case pipe_slot m of
        Some (r, p) \<Rightarrow> (Inr (r, p), m)
      | None \<Rightarrow>
          (case pipe_override m of
             Some p \<Rightarrow>
               (Inr (next_ref m, p),
                m\<lparr>pipe_slot := Some (next_ref m, p), next_ref := Suc (next_ref m)\<rparr>)
           | None \<Rightarrow>
               if provided_GetUserPipe (providers m)
               then (case resolve_REQUEST m (token_name GetUserPipe_class) of
                       (Inl e, m') \<Rightarrow> (Inl e, m')
                     | (Inr (rr, v), m') \<Rightarrow>
                         (Inr (next_ref m', RealPipe (GetUserPipe_new v)),
                          m'\<lparr>pipe_slot := Some (next_ref m', RealPipe (GetUserPipe_new v)),
                             next_ref := Suc (next_ref m')\<rparr>))
               else (Inl (MissingProviderError (token_name GetUserPipe_class) requester), m)))"

text \<open>Modelled from the spec: the container's \<^verbatim>\<open>resolve\<close> for the controller, missing
  from src/ (spec 4.1): its declared dependency \<^verbatim>\<open>LoggerService\<close> first, then the cached
  controller, or the constructor of my.controller.ts, which stores the logger; what is
  returned is the controller's reference and its state, the logger as it now is.\<close>

definition resolve_MyController ::
    "TestingModule \<Rightarrow> (error + nat \<times> MyController) \<times> TestingModule" where
  "resolve_MyController m =
     (case resolve_LoggerService m (token_name MyController_class) of
        (Inl e, m') \<Rightarrow> (Inl e, m')
      | (Inr (lr, l), m') \<Rightarrow>
          (case controller_slot m' of
             Some r \<Rightarrow> (Inr (r, \<lparr>logger = l\<rparr>), m')
           | None \<Rightarrow>
               (Inr (next_ref m', \<lparr>logger = l\<rparr>),
                m'\<lparr>controller_slot := Some (next_ref m'), next_ref := Suc (next_ref m')\<rparr>)))"

text \<open>Modelled from the spec: \<^verbatim>\<open>resolve(token)\<close>, which the tests call as
  \<^verbatim>\<open>module.get(token)\<close> and which is missing from src/, for any of the four tokens: the
  reference of the instance and the instance.\<close>

definition resolve ::
    "TestingModule \<Rightarrow> token \<Rightarrow> (error + nat \<times> module_instance) \<times> TestingModule" where
  "resolve m t =
     (case t of
        REQUEST \<Rightarrow>
          apfst (map_sum id (apsnd RequestInstance)) (resolve_REQUEST m ''RootTestModule'')
      | LoggerService_class \<Rightarrow>
          apfst (map_sum id (apsnd LoggerInstance)) (resolve_LoggerService m ''RootTestModule'')
      | GetUserPipe_class \<Rightarrow>
          apfst (map_sum id (apsnd PipeInstance)) (resolve_GetUserPipe m ''RootTestModule'')
      | MyController_class \<Rightarrow>
          apfst (map_sum id (apsnd ControllerInstance)) (resolve_MyController m))"

text \<open>Modelled from the spec: the container's cache read by token (spec 3): the
  reference of the instance that the token's slot holds, if it holds one. A controller
  counts as cached only with its logger.\<close>

fun cached_ref :: "TestingModule \<Rightarrow> token \<Rightarrow> nat option" where
  "cached_ref m REQUEST = map_option fst (request_slot m)"
| "cached_ref m LoggerService_class = map_option fst (logger_slot m)"
| "cached_ref m GetUserPipe_class = map_option fst (pipe_slot m)"
| "cached_ref m MyController_class =
     (case logger_slot m of None \<Rightarrow> None | Some l \<Rightarrow> controller_slot m)"

text \<open>
  Modelled from the spec: the binder of the parameter \<^verbatim>\<open>@User() user\<close> of
  \<^verbatim>\<open>MyController.getData\<close>, missing from src/ (spec 4.3, 7): resolve the pipe, a failure
  of which is passed on with the binder's context; call \<^verbatim>\<open>transform\<close> on the raw value
  of the decorator's factory; a fault inside \<^verbatim>\<open>transform\<close> propagates unwrapped.
\<close>

definition bind_User :: "TestingModule \<Rightarrow> 'ctx \<Rightarrow> (error + jsval) \<times> TestingModule" where
  "bind_User m ctx =
     (case resolve_GetUserPipe m ''MyController.getData'' of
        (Inl e, m') \<Rightarrow> (Inl (BindingError ''@User() user of MyController.getData'' e), m')
      | (Inr (r, p), m') \<Rightarrow>
          (pipe_transform p (User_factory JUndefined ctx),
           m'\<lparr>events := events m' @ [Transformed (User_factory JUndefined ctx)]\<rparr>))"

text \<open>Modelled from the spec: the binders of a handler's parameters run in the order of
  the parameters, each on the module as the one before left it, up to the first that
  fails (spec 4.4); a binder is any operation with the interface of spec 6.\<close>

fun run_binders ::
    "(TestingModule \<Rightarrow> 'ctx \<Rightarrow> (error + jsval) \<times> TestingModule) list \<Rightarrow> TestingModule \<Rightarrow> 'ctx \<Rightarrow>
       (error + jsval list) \<times> TestingModule" where
  "run_binders [] m ctx = (Inr [], m)"
| "run_binders (b # bs) m ctx =
     (case b m ctx of
        (Inl e, m') \<Rightarrow> (Inl e, m')
      | (Inr v, m') \<Rightarrow>
          (case run_binders bs m' ctx of
             (Inl e, m'') \<Rightarrow> (Inl e, m'')
           | (Inr vs, m'') \<Rightarrow> (Inr (v # vs), m'')))"

text \<open>
  Modelled from the spec: the dispatcher, missing from src/ (spec 2, 4.4), for the
  handler of my.controller.ts and any list of parameter binders: the binders; then, only
  if each has produced its value, the controller and the call of \<^verbatim>\<open>getData\<close> on the first
  bound value (\<^verbatim>\<open>undefined\<close> if there is none; the method takes one parameter). The
  first failure is what the caller gets. The handler's effect on the logger is written to
  the logger's slot, under the logger's reference.
\<close>

definition dispatch ::
    "(TestingModule \<Rightarrow> 'ctx \<Rightarrow> (error + jsval) \<times> TestingModule) list \<Rightarrow> TestingModule \<Rightarrow> 'ctx \<Rightarrow>
       (error + jsval) \<times> TestingModule" where
  "dispatch bs m ctx =
     (case run_binders bs m ctx of
        (Inl e, m1) \<Rightarrow> (Inl e, m1)
      | (Inr args, m1) \<Rightarrow>
          (case resolve_MyController m1 of
             (Inl e, m2) \<Rightarrow> (Inl e, m2)
           | (Inr (r, controller), m2) \<Rightarrow>
               (let user = (case args of [] \<Rightarrow> JUndefined | u # us \<Rightarrow> u)
                in case getData controller user of
                     (result, controller') \<Rightarrow>
                       (result,
                        m2\<lparr>logger_slot :=
                              map_option (\<lambda>(lr, l). (lr, logger controller')) (logger_slot m2),
                            events := events m2 @ [Invoked user]\<rparr>))))"

text \<open>Modelled from the spec: the route \<^verbatim>\<open>GET api/data\<close> of my.controller.ts, whose
  handler has the one parameter \<^verbatim>\<open>@User() user\<close>.\<close>

definition dispatch_getData :: "TestingModule \<Rightarrow> 'ctx \<Rightarrow> (error + jsval) \<times> TestingModule" where
  "dispatch_getData m ctx = dispatch [bind_User] m ctx"

text \<open>Modelled from the spec: what happens to a container in its lifetime (spec 3): a
  run of resolutions and of requests to the route, one after the other.\<close>

datatype 'ctx operation = Get token | Request 'ctx

definition run :: "'ctx operation list \<Rightarrow> TestingModule \<Rightarrow> TestingModule" where
  "run ops m =
     fold (\<lambda>op m'. case op of Get t \<Rightarrow> snd (resolve m' t)
                              | Request ctx \<Rightarrow> snd (dispatch_getData m' ctx)) ops m"

text \<open>Modelled from the spec: what the module's record holds: the arguments the handler
  was called with, and the raw values \<^verbatim>\<open>transform\<close> was called with, in order.\<close>

definition invocations :: "TestingModule \<Rightarrow> jsval list" where
  "invocations m =
     concat (map (\<lambda>e. case e of Invoked u \<Rightarrow> [u] | Transformed v \<Rightarrow> []) (events m))"

definition transforms :: "TestingModule \<Rightarrow> jsval list" where
  "transforms m =
     concat (map (\<lambda>e. case e of Transformed v \<Rightarrow> [v] | Invoked u \<Rightarrow> []) (events m))"

subsection \<open>The two test modules\<close>

text \<open>my.controller.spec.ts, lines 13-28: the logger mock and the pipe, no provider for
  \<^verbatim>\<open>REQUEST\<close>.\<close>

definition broken_module :: TestingModule where
  "broken_module =
     compile (createTestingModule
       [UseValue_LoggerService (JestLogger MockLogger_new), Class_GetUserPipe])"

text \<open>The fixed test (\<^verbatim>\<open>WITH Proper Mocks\<close>): \<^verbatim>\<open>REQUEST\<close> is provided, and the pipe is
  overridden by a stub.\<close>

definition fixed_module :: TestingModule where
  "fixed_module =
     compile (overridePipe (StubPipe (JObj [''id'' \<mapsto> JNum 1, ''name'' \<mapsto> JStr ''Test User'']))
       (createTestingModule
         [UseValue_LoggerService (JestLogger MockLogger_new), Class_GetUserPipe,
          UseValue_REQUEST (JObj [''headers'' \<mapsto> JObj [''x-user-id'' \<mapsto> JStr ''1'']])]))"

text \<open>Whether a message mentions a name: the name occurs in it as a substring.\<close>

fun mentions :: "string \<Rightarrow> string \<Rightarrow> bool" where
  "mentions [] name = (name = [])"
| "mentions (c # cs) name = (take (length name) (c # cs) = name \<or> mentions cs name)"

section \<open>The logger\<close>

lemma assign_on_new_LoggerService: "context (assign LoggerService_new data) = data"
  by (simp add: assign_def LoggerService_new_def)

text \<open>
  C10. \<^verbatim>\<open>LoggerService.assign\<close> merges its argument into the accumulated context: a
  key that the argument does not have keeps its prior value, a key that it has takes the
  argument's value; \<^verbatim>\<open>LoggerService.log\<close> leaves the context unchanged.
\<close>

theorem assign_merges_and_log_keeps_context:
  "(data k = None \<longrightarrow> context (assign l data) k = context l k) \<and>
   (data k = Some v \<longrightarrow> context (assign l data) k = Some v) \<and>
   context (snd (log l message)) = context l"
  by (simp add: assign_def log_def map_add_def)

theorem assign_merges_and_log_keeps_context_witness:
  "context (assign \<lparr>context = [''userId'' \<mapsto> JNum 7, ''trace'' \<mapsto> JStr ''t'']\<rparr>
      [''userId'' \<mapsto> JNum 1]) ''trace'' = Some (JStr ''t'') \<and>
   context (assign \<lparr>context = [''userId'' \<mapsto> JNum 7, ''trace'' \<mapsto> JStr ''t'']\<rparr>
      [''userId'' \<mapsto> JNum 1]) ''userId'' = Some (JNum 1) \<and>
   context (snd (log \<lparr>context = [''userId'' \<mapsto> JNum 7]\<rparr> ''hello'')) = [''userId'' \<mapsto> JNum 7]"
  using assign_merges_and_log_keeps_context
          [of "[''userId'' \<mapsto> JNum 1]" "''trace''"
              "\<lparr>context = [''userId'' \<mapsto> JNum 7, ''trace'' \<mapsto> JStr ''t'']\<rparr>" "JNum 1" "''hello''"]
        assign_merges_and_log_keeps_context
          [of "[''userId'' \<mapsto> JNum 1]" "''userId''"
              "\<lparr>context = [''userId'' \<mapsto> JNum 7, ''trace'' \<mapsto> JStr ''t'']\<rparr>" "JNum 1" "''hello''"]
        assign_merges_and_log_keeps_context
          [of "[''userId'' \<mapsto> JNum 1]" "''userId''"
              "\<lparr>context = [''userId'' \<mapsto> JNum 7]\<rparr>" "JNum 1" "''hello''"]
  by simp

section \<open>The pipe\<close>

lemma parseInt_10_one: "parseInt_10 (JStr ''1'') = Inr (JNum 1)"
  by (simp add: parseInt_10_def is_space_def is_digit_def digits_value_def)

lemma transform_undefined_request:
  "transform (GetUserPipe_new JUndefined) v =
     Inl (TypeError ''Cannot read properties of undefined (reading 'headers')'')"
  by (simp add: transform_def GetUserPipe_new_def quote_def)

text \<open>
  C4. For every injected request whose headers object has no \<^verbatim>\<open>x-user-id\<close> entry (the
  empty headers among them), \<^verbatim>\<open>transform\<close> does not fail and returns the anonymous
  default \<^verbatim>\<open>{ id: 0, name: 'Anonymous' }\<close>.
\<close>

theorem transform_anonymous_when_header_absent:
  assumes "r ''headers'' = Some (JObj hs)" and "hs ''x-user-id'' = None"
  shows "transform (GetUserPipe_new (JObj r)) v =
           Inr (JObj [''id'' \<mapsto> JNum 0, ''name'' \<mapsto> JStr ''Anonymous''])"
  using assms by (simp add: transform_def GetUserPipe_new_def)

theorem transform_anonymous_when_header_absent_witness:
  "transform (GetUserPipe_new (JObj [''headers'' \<mapsto> JObj Map.empty])) JUndefined =
     Inr (JObj [''id'' \<mapsto> JNum 0, ''name'' \<mapsto> JStr ''Anonymous''])"
  using transform_anonymous_when_header_absent
          [of "[''headers'' \<mapsto> JObj Map.empty]" Map.empty JUndefined]
  by simp

text \<open>
  C9. For every injected request whose headers map \<^verbatim>\<open>x-user-id\<close> to a falsy value, the
  empty string among them, \<^verbatim>\<open>transform\<close> returns \<^verbatim>\<open>{ id: 0, name: 'Anonymous' }\<close>, the
  result it gives when the key is absent: at \<^verbatim>\<open>transform\<close> an empty user id cannot be
  told from a missing one.
\<close>

theorem transform_anonymous_when_header_falsy:
  assumes "r ''headers'' = Some (JObj hs)" and "hs ''x-user-id'' = Some u" and "\<not> truthy u"
  shows "transform (GetUserPipe_new (JObj r)) v =
           Inr (JObj [''id'' \<mapsto> JNum 0, ''name'' \<mapsto> JStr ''Anonymous'']) \<and>
         transform (GetUserPipe_new (JObj r)) v =
           transform (GetUserPipe_new (JObj (r(''headers'' \<mapsto> JObj (hs(''x-user-id'' := None)))))) v'"
  using assms by (simp add: transform_def GetUserPipe_new_def)

theorem transform_anonymous_when_header_falsy_witness:
  "transform (GetUserPipe_new (JObj [''headers'' \<mapsto> JObj [''x-user-id'' \<mapsto> JStr []]]))
      JUndefined =
     Inr (JObj [''id'' \<mapsto> JNum 0, ''name'' \<mapsto> JStr ''Anonymous'']) \<and>
   transform (GetUserPipe_new (JObj [''headers'' \<mapsto> JObj [''x-user-id'' \<mapsto> JStr []]]))
      JUndefined =
     transform (GetUserPipe_new (JObj [''headers'' \<mapsto> JObj Map.empty])) JUndefined"
proof -
  let ?hs = "[''x-user-id'' \<mapsto> JStr []]"
  let ?r = "[''headers'' \<mapsto> JObj ?hs]"
  have a: "?r ''headers'' = Some (JObj ?hs)" by simp
  have b: "?hs ''x-user-id'' = Some (JStr [])" by simp
  have c: "\<not> truthy (JStr [])" by simp
  have d: "?r(''headers'' \<mapsto> JObj (?hs(''x-user-id'' := None))) = [''headers'' \<mapsto> JObj Map.empty]"
    by simp
  from transform_anonymous_when_header_falsy
         [where r = ?r and hs = ?hs and u = "JStr []" and v = JUndefined and v' = JUndefined,
          OF a b c]
  show ?thesis unfolding d .
qed

text \<open>
  C8. \<^verbatim>\<open>transform\<close> consumes only what was injected at construction: its result does
  not depend on the raw value it is given, and two requests whose headers agree on
  \<^verbatim>\<open>x-user-id\<close> give equal results. It takes no container, so it resolves nothing.
\<close>

theorem transform_depends_only_on_request:
  "transform (GetUserPipe_new r) v = transform (GetUserPipe_new r) v' \<and>
   (get_prop r ''headers'' = Inr h \<longrightarrow> get_prop r' ''headers'' = Inr h' \<longrightarrow>
    get_prop h ''x-user-id'' = get_prop h' ''x-user-id'' \<longrightarrow>
    transform (GetUserPipe_new r) v = transform (GetUserPipe_new r') v')"
  by (simp add: transform_def GetUserPipe_new_def)

theorem transform_depends_only_on_request_witness:
  "transform (GetUserPipe_new
      (JObj [''headers'' \<mapsto> JObj [''x-user-id'' \<mapsto> JStr ''1''], ''url'' \<mapsto> JStr ''/a'']))
      JUndefined =
   transform (GetUserPipe_new
      (JObj [''headers'' \<mapsto> JObj [''x-user-id'' \<mapsto> JStr ''1''], ''url'' \<mapsto> JStr ''/a'']))
      (JStr ''raw'') \<and>
   transform (GetUserPipe_new
      (JObj [''headers'' \<mapsto> JObj [''x-user-id'' \<mapsto> JStr ''1''], ''url'' \<mapsto> JStr ''/a'']))
      JUndefined =
   transform (GetUserPipe_new
      (JObj [''headers'' \<mapsto> JObj [''x-user-id'' \<mapsto> JStr ''1'', ''accept'' \<mapsto> JStr ''*'']]))
      (JStr ''raw'')"
proof -
  let ?h = "JObj [''x-user-id'' \<mapsto> JStr ''1'']"
  let ?h' = "JObj [''x-user-id'' \<mapsto> JStr ''1'', ''accept'' \<mapsto> JStr ''*'']"
  let ?r = "JObj [''headers'' \<mapsto> ?h, ''url'' \<mapsto> JStr ''/a'']"
  let ?r' = "JObj [''headers'' \<mapsto> ?h']"
  have a: "get_prop ?r ''headers'' = Inr ?h" by simp
  have b: "get_prop ?r' ''headers'' = Inr ?h'" by simp
  have c: "get_prop ?h ''x-user-id'' = get_prop ?h' ''x-user-id''" by simp
  from transform_depends_only_on_request
         [where r = ?r and v = JUndefined and v' = "JStr ''raw''" and h = ?h
            and r' = ?r' and h' = ?h']
       a b c
  show ?thesis by blast
qed

section \<open>The pipe and the handler together\<close>

text \<open>
  C3. When the request injected for \<^verbatim>\<open>REQUEST\<close> is
  \<^verbatim>\<open>{ headers: { 'x-user-id': '1' } }\<close>, \<^verbatim>\<open>transform\<close> returns
  \<^verbatim>\<open>{ id: 1, name: 'Test User' }\<close>; \<^verbatim>\<open>getData\<close>, given that object, calls the logger's
  \<^verbatim>\<open>assign\<close> with \<^verbatim>\<open>{ userId: 1, userName: 'Test User' }\<close>, which the mock of the tests
  records as its one call.
\<close>

theorem scenario_request_provided:
  "transform (GetUserPipe_new (JObj [''headers'' \<mapsto> JObj [''x-user-id'' \<mapsto> JStr ''1'']])) v =
     Inr (JObj [''id'' \<mapsto> JNum 1, ''name'' \<mapsto> JStr ''Test User'']) \<and>
   getData \<lparr>logger = lg\<rparr> (JObj [''id'' \<mapsto> JNum 1, ''name'' \<mapsto> JStr ''Test User'']) =
     (Inr (JObj [''message'' \<mapsto> JStr ''Hello user 1'']),
      \<lparr>logger = logger_assign lg [''userId'' \<mapsto> JNum 1, ''userName'' \<mapsto> JStr ''Test User'']\<rparr>) \<and>
   logger_assign (JestLogger MockLogger_new)
       [''userId'' \<mapsto> JNum 1, ''userName'' \<mapsto> JStr ''Test User''] =
     JestLogger \<lparr>assign_calls = [[''userId'' \<mapsto> JNum 1, ''userName'' \<mapsto> JStr ''Test User'']],
                 log_calls = []\<rparr>"
  by (simp add: transform_def GetUserPipe_new_def parseInt_10_one getData_def show_int_def
        digit_char_def MockLogger_new_def)

section \<open>The handler on an instance whose constructor has not run\<close>

text \<open>
  C2. The claim: with no provider for \<^verbatim>\<open>REQUEST\<close> in the module, invoking the handler
  raises an error that mentions \<^verbatim>\<open>REQUEST\<close> and \<^verbatim>\<open>GetUserPipe\<close>, not a generic fault
  at an unrelated call site. What the code does in the test of my.controller.spec.ts
  (lines 38-50), as the README records it (lines 22-25): the instance that the test
  module hands out has no \<^verbatim>\<open>logger\<close>, and \<^verbatim>\<open>controller.getData({ id: 1, name: 'Test' })\<close>
  throws at line 17 of my.controller.ts, on \<^verbatim>\<open>this.logger.assign\<close>: the engine's
  \<open>TypeError\<close>, whose message mentions neither name. The same call on a constructed
  instance succeeds.
\<close>

theorem getData_without_logger_names_nothing:
  "call_getData None (JObj [''id'' \<mapsto> JNum 1, ''name'' \<mapsto> JStr ''Test'']) =
     (Inl (TypeError ''Cannot read properties of undefined (reading 'assign')''), None) \<and>
   \<not> mentions ''Cannot read properties of undefined (reading 'assign')'' ''REQUEST'' \<and>
   \<not> mentions ''Cannot read properties of undefined (reading 'assign')'' ''GetUserPipe'' \<and>
   fst (call_getData (Some (JestLogger MockLogger_new))
          (JObj [''id'' \<mapsto> JNum 1, ''name'' \<mapsto> JStr ''Test''])) =
     Inr (JObj [''message'' \<mapsto> JStr ''Hello user 1''])"
  by (simp add: call_getData_def quote_def getData_def show_int_def digit_char_def)

section \<open>Resolution in the container of the spec\<close>

lemma provided_by_broken_module:
  "provided_REQUEST [UseValue_LoggerService l, Class_GetUserPipe] = None"
  "provided_LoggerService [UseValue_LoggerService l, Class_GetUserPipe] = Some l"
  "provided_GetUserPipe [UseValue_LoggerService l, Class_GetUserPipe]"
  by (simp_all add: provided_REQUEST_def provided_LoggerService_def provided_GetUserPipe_def)

text \<open>A module whose registrations have no \<^verbatim>\<open>REQUEST\<close> and no override never gets a
  request or a pipe into its cache, and never runs anything.\<close>

lemma no_request_step:
  assumes "provided_REQUEST (providers m) = None" and "pipe_override m = None"
    and "request_slot m = None" and "pipe_slot m = None" and "events m = []"
  shows "providers (snd (resolve m t)) = providers m \<and>
         pipe_override (snd (resolve m t)) = None \<and>
         request_slot (snd (resolve m t)) = None \<and>
         pipe_slot (snd (resolve m t)) = None \<and>
         events (snd (resolve m t)) = []"
    and "providers (snd (dispatch_getData m ctx)) = providers m \<and>
         pipe_override (snd (dispatch_getData m ctx)) = None \<and>
         request_slot (snd (dispatch_getData m ctx)) = None \<and>
         pipe_slot (snd (dispatch_getData m ctx)) = None \<and>
         events (snd (dispatch_getData m ctx)) = []"
proof -
  show "providers (snd (resolve m t)) = providers m \<and>
         pipe_override (snd (resolve m t)) = None \<and>
         request_slot (snd (resolve m t)) = None \<and>
         pipe_slot (snd (resolve m t)) = None \<and>
         events (snd (resolve m t)) = []"
    using assms
    by (cases t)
       (auto simp: resolve_def resolve_REQUEST_def resolve_LoggerService_def
          resolve_GetUserPipe_def resolve_MyController_def split: option.splits prod.splits)
  show "providers (snd (dispatch_getData m ctx)) = providers m \<and>
         pipe_override (snd (dispatch_getData m ctx)) = None \<and>
         request_slot (snd (dispatch_getData m ctx)) = None \<and>
         pipe_slot (snd (dispatch_getData m ctx)) = None \<and>
         events (snd (dispatch_getData m ctx)) = []"
    using assms
    by (simp add: dispatch_getData_def dispatch_def bind_User_def resolve_GetUserPipe_def
          resolve_REQUEST_def)
qed

lemma no_request_run:
  assumes "provided_REQUEST (providers m) = None" and "pipe_override m = None"
    and "request_slot m = None" and "pipe_slot m = None" and "events m = []"
  shows "providers (run ops m) = providers m \<and> pipe_override (run ops m) = None \<and>
         request_slot (run ops m) = None \<and> pipe_slot (run ops m) = None \<and>
         events (run ops m) = []"
  using assms
proof (induction ops arbitrary: m)
  case Nil
  then show ?case by (simp add: run_def)
next
  case (Cons op ops)
  show ?case
  proof (cases op)
    case (Get t)
    from no_request_step(1) [OF Cons.prems, of t]
    have "providers (run ops (snd (resolve m t))) = providers (snd (resolve m t)) \<and>
          pipe_override (run ops (snd (resolve m t))) = None \<and>
          request_slot (run ops (snd (resolve m t))) = None \<and>
          pipe_slot (run ops (snd (resolve m t))) = None \<and>
          events (run ops (snd (resolve m t))) = []"
      using Cons.prems(1) by (intro Cons.IH) simp_all
    with no_request_step(1) [OF Cons.prems, of t] Get show ?thesis by (simp add: run_def)
  next
    case (Request ctx)
    from no_request_step(2) [OF Cons.prems, of ctx]
    have "providers (run ops (snd (dispatch_getData m ctx))) = providers (snd (dispatch_getData m ctx)) \<and>
          pipe_override (run ops (snd (dispatch_getData m ctx))) = None \<and>
          request_slot (run ops (snd (dispatch_getData m ctx))) = None \<and>
          pipe_slot (run ops (snd (dispatch_getData m ctx))) = None \<and>
          events (run ops (snd (dispatch_getData m ctx))) = []"
      using Cons.prems(1) by (intro Cons.IH) simp_all
    with no_request_step(2) [OF Cons.prems, of ctx] Request show ?thesis by (simp add: run_def)
  qed
qed

text \<open>
  C1. In the container of the spec, when the pipe is registered and no provider is
  registered for the token it requires, \<^verbatim>\<open>REQUEST\<close>, then at every moment of the
  container's lifetime resolving the pipe raises \<open>MissingProviderError\<close>, naming the
  token and the pipe, and the binder raises it wrapped in \<open>BindingError\<close>; the container
  is left as it was, so no pipe is constructed on a placeholder and cached, and
  \<^verbatim>\<open>transform\<close> has never run.
\<close>

theorem missing_provider_is_reported:
  assumes "provided_REQUEST ps = None" and "provided_GetUserPipe ps"
    and "m = run ops (compile (createTestingModule ps))"
  shows "resolve_GetUserPipe m requester =
           (Inl (MissingProviderError ''REQUEST'' ''GetUserPipe''), m) \<and>
         bind_User m ctx =
           (Inl (BindingError ''@User() user of MyController.getData''
                   (MissingProviderError ''REQUEST'' ''GetUserPipe'')), m) \<and>
         pipe_slot m = None \<and> transforms m = [] \<and> invocations m = []"
proof -
  let ?m0 = "compile (createTestingModule ps)"
  have "providers (run ops ?m0) = providers ?m0 \<and> pipe_override (run ops ?m0) = None \<and>
        request_slot (run ops ?m0) = None \<and> pipe_slot (run ops ?m0) = None \<and>
        events (run ops ?m0) = []"
    using assms(1) by (intro no_request_run) (simp_all add: compile_def createTestingModule_def)
  with assms have inv: "provided_REQUEST (providers m) = None" "provided_GetUserPipe (providers m)"
    "pipe_override m = None" "request_slot m = None" "pipe_slot m = None" "events m = []"
    by (simp_all add: compile_def createTestingModule_def)
  then show ?thesis
    by (simp add: resolve_GetUserPipe_def resolve_REQUEST_def bind_User_def transforms_def
          invocations_def)
qed

theorem missing_provider_is_reported_witness:
  "resolve_GetUserPipe (run [Get MyController_class, Request (), Get GetUserPipe_class] broken_module)
      ''RootTestModule'' =
     (Inl (MissingProviderError ''REQUEST'' ''GetUserPipe''),
      run [Get MyController_class, Request (), Get GetUserPipe_class] broken_module) \<and>
   fst (bind_User broken_module ()) =
     Inl (BindingError ''@User() user of MyController.getData''
            (MissingProviderError ''REQUEST'' ''GetUserPipe'')) \<and>
   transforms (run [Get MyController_class, Request (), Get GetUserPipe_class] broken_module) = []"
proof -
  let ?ps = "[UseValue_LoggerService (JestLogger MockLogger_new), Class_GetUserPipe]"
  have a: "provided_REQUEST ?ps = None" and b: "provided_GetUserPipe ?ps"
    by (rule provided_by_broken_module)+
  have c: "run [Get MyController_class, Request (), Get GetUserPipe_class] broken_module =
           run [Get MyController_class, Request (), Get GetUserPipe_class]
             (compile (createTestingModule ?ps))"
    by (simp add: broken_module_def)
  have d: "broken_module = run ([] :: unit operation list) (compile (createTestingModule ?ps))"
    by (simp add: broken_module_def run_def)
  from missing_provider_is_reported [OF a b c, of "''RootTestModule''" "()"]
       missing_provider_is_reported [OF a b d, of "''RootTestModule''" "()"]
  show ?thesis by simp
qed

section \<open>The cache\<close>

text \<open>A successful resolution leaves the instance's reference in the token's slot; a
  filled slot answers with its reference and changes nothing; a reference in a slot stays
  there through every later resolution and request.\<close>

lemma resolve_caches:
  assumes "resolve m t = (Inr (r, i), m')"
  shows "cached_ref m' t = Some r" and "resolve m' t = (Inr (r, i), m')"
proof -
  show "cached_ref m' t = Some r"
    using assms
    by (cases t)
       (auto simp: resolve_def resolve_REQUEST_def resolve_LoggerService_def
          resolve_GetUserPipe_def resolve_MyController_def
          split: option.splits prod.splits sum.splits if_splits)
  show "resolve m' t = (Inr (r, i), m')"
    using assms
    by (cases t)
       (auto simp: resolve_def resolve_REQUEST_def resolve_LoggerService_def
          resolve_GetUserPipe_def resolve_MyController_def
          split: option.splits prod.splits sum.splits if_splits)
qed

lemma resolve_cached:
  assumes "cached_ref m t = Some r"
  shows "\<exists>i. resolve m t = (Inr (r, i), m)"
  using assms
  by (cases t)
     (auto simp: resolve_def resolve_REQUEST_def resolve_LoggerService_def
        resolve_GetUserPipe_def resolve_MyController_def split: option.splits)

lemma resolve_keeps_cached:
  assumes "cached_ref m t = Some r"
  shows "cached_ref (snd (resolve m t')) t = Some r"
  using assms
  by (cases t; cases t')
     (auto simp: resolve_def resolve_REQUEST_def resolve_LoggerService_def
        resolve_GetUserPipe_def resolve_MyController_def
        split: option.splits prod.splits sum.splits if_splits)

lemma cached_ref_events:
  "cached_ref (m\<lparr>events := es\<rparr>) t = cached_ref m t"
  by (cases t) (simp_all split: option.splits)

lemma cached_ref_logger_state:
  "cached_ref (m\<lparr>logger_slot := map_option (\<lambda>(lr, l). (lr, x)) (logger_slot m)\<rparr>) t =
     cached_ref m t"
  by (cases t; cases "logger_slot m") auto

lemma resolve_GetUserPipe_keeps_cached:
  assumes "cached_ref m t = Some r"
  shows "cached_ref (snd (resolve_GetUserPipe m requester)) t = Some r"
  using assms
  by (cases t)
     (auto simp: resolve_REQUEST_def resolve_GetUserPipe_def split: option.splits)

lemma resolve_MyController_keeps_cached:
  assumes "cached_ref m t = Some r"
  shows "cached_ref (snd (resolve_MyController m)) t = Some r"
  using assms
  by (cases t)
     (auto simp: resolve_LoggerService_def resolve_MyController_def split: option.splits)

lemma bind_User_keeps_cached:
  assumes "cached_ref m t = Some r"
  shows "cached_ref (snd (bind_User m ctx)) t = Some r"
proof (cases "resolve_GetUserPipe m ''MyController.getData''")
  case (Pair res m')
  with resolve_GetUserPipe_keeps_cached [OF assms, of "''MyController.getData''"]
  have "cached_ref m' t = Some r" by simp
  with Pair show ?thesis
    by (cases res) (auto simp: bind_User_def cached_ref_events)
qed

lemma dispatch_getData_keeps_cached:
  assumes "cached_ref m t = Some r"
  shows "cached_ref (snd (dispatch_getData m ctx)) t = Some r"
proof (cases "bind_User m ctx")
  case (Pair res m1)
  with bind_User_keeps_cached [OF assms, of ctx] have m1: "cached_ref m1 t = Some r" by simp
  show ?thesis
  proof (cases res)
    case (Inl e)
    with Pair m1 show ?thesis by (simp add: dispatch_getData_def dispatch_def)
  next
    case (Inr v)
    show ?thesis
    proof (cases "resolve_MyController m1")
      case c: (Pair res2 m2)
      with resolve_MyController_keeps_cached [OF m1] have m2: "cached_ref m2 t = Some r" by simp
      show ?thesis
      proof (cases res2)
        case (Inl e)
        with Pair Inr c m2 show ?thesis by (simp add: dispatch_getData_def dispatch_def)
      next
        case i: (Inr rc)
        with Pair Inr c m2 show ?thesis
          by (cases rc)
             (simp add: dispatch_getData_def dispatch_def cached_ref_events
                cached_ref_logger_state split: prod.splits)
      qed
    qed
  qed
qed

lemma run_keeps_cached:
  "cached_ref m t = Some r \<Longrightarrow> cached_ref (run ops m) t = Some r"
proof (induction ops arbitrary: m)
  case Nil
  then show ?case by (simp add: run_def)
next
  case (Cons op ops)
  show ?case
  proof (cases op)
    case (Get t')
    from Cons.IH [OF resolve_keeps_cached [OF Cons.prems, of t']] Get
    show ?thesis by (simp add: run_def)
  next
    case (Request ctx)
    from Cons.IH [OF dispatch_getData_keeps_cached [OF Cons.prems, of ctx]] Request
    show ?thesis by (simp add: run_def)
  qed
qed

text \<open>A token that is not cached gets, when its instance is constructed, a reference that
  no instance had before (in a container where a cached controller has its logger cached,
  as every container has that \<open>compile\<close> and \<open>run\<close> produce).\<close>

lemma resolve_allocates_fresh:
  assumes "cached_ref m t = None" and "resolve m t = (Inr (r, i), m')"
    and "controller_slot m = None \<or> logger_slot m \<noteq> None"
  shows "next_ref m \<le> r \<and> r < next_ref m'"
  using assms
  by (cases t)
     (auto simp: resolve_def resolve_REQUEST_def resolve_LoggerService_def
        resolve_GetUserPipe_def resolve_MyController_def
        split: option.splits prod.splits sum.splits if_splits)

text \<open>
  C6. Resolving the same token twice within one container lifetime returns the same
  cached instance: when \<open>resolve\<close> has returned an instance for a token, with its
  reference, resolving the token again returns the instance of that same reference and
  constructs nothing (the container, and with it the next unused reference, stays as it
  is); this at once, where the instance is also in the same state, and after any run of
  other resolutions and requests, which may have changed the state of the logger but not
  which instance it is.
\<close>

theorem resolve_twice_same_instance:
  assumes "resolve m t = (Inr (r, i), m')"
  shows "resolve m' t = (Inr (r, i), m') \<and>
         (\<exists>i'. resolve (run ops m') t = (Inr (r, i'), run ops m'))"
  using resolve_caches(2) [OF assms]
        resolve_cached [OF run_keeps_cached [OF resolve_caches(1) [OF assms]]]
  by simp

theorem resolve_twice_same_instance_witness:
  "resolve (snd (resolve fixed_module LoggerService_class)) LoggerService_class =
     (Inr (0, LoggerInstance (JestLogger MockLogger_new)),
      snd (resolve fixed_module LoggerService_class)) \<and>
   (\<exists>i'. resolve (run [Request (), Get GetUserPipe_class]
                    (snd (resolve fixed_module LoggerService_class))) LoggerService_class =
            (Inr (0, i'),
             run [Request (), Get GetUserPipe_class]
               (snd (resolve fixed_module LoggerService_class))))"
proof -
  have "resolve fixed_module LoggerService_class =
          (Inr (0, LoggerInstance (JestLogger MockLogger_new)),
           snd (resolve fixed_module LoggerService_class))"
    by (simp add: resolve_def resolve_LoggerService_def fixed_module_def compile_def
          overridePipe_def createTestingModule_def provided_LoggerService_def)
  then show ?thesis by (rule resolve_twice_same_instance)
qed

section \<open>Overriding the pipe\<close>

lemma override_step:
  assumes "pipe_override m = Some p" and "pipe_slot m = None \<or> (\<exists>r. pipe_slot m = Some (r, p))"
  shows "pipe_override (snd (resolve m t)) = Some p \<and>
         (pipe_slot (snd (resolve m t)) = None \<or> (\<exists>r. pipe_slot (snd (resolve m t)) = Some (r, p)))"
    and "pipe_override (snd (dispatch_getData m ctx)) = Some p \<and>
         (pipe_slot (snd (dispatch_getData m ctx)) = None \<or>
          (\<exists>r. pipe_slot (snd (dispatch_getData m ctx)) = Some (r, p)))"
proof -
  show "pipe_override (snd (resolve m t)) = Some p \<and>
         (pipe_slot (snd (resolve m t)) = None \<or> (\<exists>r. pipe_slot (snd (resolve m t)) = Some (r, p)))"
    using assms
    by (cases t)
       (auto simp: resolve_def resolve_REQUEST_def resolve_LoggerService_def
          resolve_GetUserPipe_def resolve_MyController_def split: option.splits prod.splits)
  show "pipe_override (snd (dispatch_getData m ctx)) = Some p \<and>
         (pipe_slot (snd (dispatch_getData m ctx)) = None \<or>
          (\<exists>r. pipe_slot (snd (dispatch_getData m ctx)) = Some (r, p)))"
    using assms
    by (auto simp: dispatch_getData_def dispatch_def bind_User_def resolve_LoggerService_def
          resolve_GetUserPipe_def resolve_MyController_def
          split: option.splits prod.splits sum.splits)
qed

lemma override_run:
  assumes "pipe_override m = Some p" and "pipe_slot m = None \<or> (\<exists>r. pipe_slot m = Some (r, p))"
  shows "pipe_override (run ops m) = Some p \<and>
         (pipe_slot (run ops m) = None \<or> (\<exists>r. pipe_slot (run ops m) = Some (r, p)))"
  using assms
proof (induction ops arbitrary: m)
  case Nil
  then show ?case by (simp add: run_def)
next
  case (Cons op ops)
  show ?case
  proof (cases op)
    case (Get t)
    from override_step(1) [OF Cons.prems, of t]
    have "pipe_override (run ops (snd (resolve m t))) = Some p \<and>
          (pipe_slot (run ops (snd (resolve m t))) = None \<or>
           (\<exists>r. pipe_slot (run ops (snd (resolve m t))) = Some (r, p)))"
      by (intro Cons.IH) simp_all
    with Get show ?thesis by (simp add: run_def)
  next
    case (Request ctx)
    from override_step(2) [OF Cons.prems, of ctx]
    have "pipe_override (run ops (snd (dispatch_getData m ctx))) = Some p \<and>
          (pipe_slot (run ops (snd (dispatch_getData m ctx))) = None \<or>
           (\<exists>r. pipe_slot (run ops (snd (dispatch_getData m ctx))) = Some (r, p)))"
      by (intro Cons.IH) simp_all
    with Request show ?thesis by (simp add: run_def)
  qed
qed

lemma resolve_overridden:
  assumes "pipe_override m = Some p" and "pipe_slot m = None \<or> (\<exists>r. pipe_slot m = Some (r, p))"
  shows "\<exists>r. fst (resolve m GetUserPipe_class) = Inr (r, PipeInstance p)"
  using assms by (auto simp: resolve_def resolve_GetUserPipe_def)

text \<open>
  C5, as the claim states it, fails in its last part: with the pipe overridden by a stub
  whose \<^verbatim>\<open>transform\<close> resolves to a fixed value, the handler is invoked with that value,
  and for the value \<^verbatim>\<open>undefined\<close> (what \<^verbatim>\<open>{ transform: jest.fn() }\<close>, the stub of the
  README, resolves to) \<^verbatim>\<open>getData\<close> throws on \<^verbatim>\<open>user.id\<close>: an error occurs during the
  handler's invocation.
\<close>

theorem stub_resolving_to_undefined_fails:
  "fst (getData \<lparr>logger = JestLogger MockLogger_new\<rparr> JUndefined) =
     Inl (TypeError ''Cannot read properties of undefined (reading 'id')'') \<and>
   fst (dispatch_getData
          (compile (overridePipe (StubPipe JUndefined)
             (createTestingModule
                [UseValue_LoggerService (JestLogger MockLogger_new), Class_GetUserPipe]))) ()) =
     Inl (TypeError ''Cannot read properties of undefined (reading 'id')'')"
  by (simp add: getData_def quote_def dispatch_getData_def dispatch_def bind_User_def
        resolve_GetUserPipe_def resolve_MyController_def resolve_LoggerService_def
        compile_def overridePipe_def createTestingModule_def provided_LoggerService_def
        User_factory_def)

text \<open>
  C5, amended. When the pipe's binding is overridden, every later resolution of the
  pipe's token, after any run of resolutions and requests, returns the overriding pipe
  and never the original, whatever else is registered: no provider for \<^verbatim>\<open>REQUEST\<close> is
  needed. With a stub whose \<^verbatim>\<open>transform\<close> resolves to a fixed value, in a module that
  provides the controller's logger, the handler is invoked with that value, and no error
  occurs when \<^verbatim>\<open>getData\<close> can read the value's \<^verbatim>\<open>id\<close> and \<^verbatim>\<open>name\<close> and print its
  \<^verbatim>\<open>id\<close>, as it can for the \<^verbatim>\<open>{ id: 1, name: 'Test User' }\<close> of the fixed test.
\<close>

theorem override_is_what_resolves:
  "(\<exists>r. fst (resolve (run ops (compile (overridePipe p (createTestingModule ps))))
             GetUserPipe_class) = Inr (r, PipeInstance p)) \<and>
   (provided_LoggerService ps = Some l \<longrightarrow>
    get_prop v ''id'' = Inr uid \<longrightarrow> get_prop v ''name'' = Inr uname \<longrightarrow>
    to_string uid = Inr s \<longrightarrow>
      fst (dispatch_getData (compile (overridePipe (StubPipe v) (createTestingModule ps))) ctx) =
        Inr (JObj [''message'' \<mapsto> JStr (''Hello user '' @ s)]) \<and>
      events (snd (dispatch_getData
                     (compile (overridePipe (StubPipe v) (createTestingModule ps))) ctx)) =
        [Transformed JUndefined, Invoked v] \<and>
      logger_slot (snd (dispatch_getData
                     (compile (overridePipe (StubPipe v) (createTestingModule ps))) ctx)) =
        Some (1, logger_assign l [''userId'' \<mapsto> uid, ''userName'' \<mapsto> uname]) \<and>
      request_slot (snd (dispatch_getData
                     (compile (overridePipe (StubPipe v) (createTestingModule ps))) ctx)) = None)"
proof
  let ?m = "compile (overridePipe p (createTestingModule ps))"
  have "pipe_override ?m = Some p" and "pipe_slot ?m = None \<or> (\<exists>r. pipe_slot ?m = Some (r, p))"
    by (simp_all add: compile_def overridePipe_def createTestingModule_def)
  then have "pipe_override (run ops ?m) = Some p \<and>
             (pipe_slot (run ops ?m) = None \<or> (\<exists>r. pipe_slot (run ops ?m) = Some (r, p)))"
    by (rule override_run)
  then show "\<exists>r. fst (resolve (run ops ?m) GetUserPipe_class) = Inr (r, PipeInstance p)"
    by (intro resolve_overridden) simp_all
next
  show "provided_LoggerService ps = Some l \<longrightarrow>
    get_prop v ''id'' = Inr uid \<longrightarrow> get_prop v ''name'' = Inr uname \<longrightarrow>
    to_string uid = Inr s \<longrightarrow>
      fst (dispatch_getData (compile (overridePipe (StubPipe v) (createTestingModule ps))) ctx) =
        Inr (JObj [''message'' \<mapsto> JStr (''Hello user '' @ s)]) \<and>
      events (snd (dispatch_getData
                     (compile (overridePipe (StubPipe v) (createTestingModule ps))) ctx)) =
        [Transformed JUndefined, Invoked v] \<and>
      logger_slot (snd (dispatch_getData
                     (compile (overridePipe (StubPipe v) (createTestingModule ps))) ctx)) =
        Some (1, logger_assign l [''userId'' \<mapsto> uid, ''userName'' \<mapsto> uname]) \<and>
      request_slot (snd (dispatch_getData
                     (compile (overridePipe (StubPipe v) (createTestingModule ps))) ctx)) = None"
    by (simp add: dispatch_getData_def dispatch_def bind_User_def resolve_GetUserPipe_def
          resolve_MyController_def resolve_LoggerService_def compile_def overridePipe_def
          createTestingModule_def getData_def User_factory_def)
qed

theorem override_is_what_resolves_witness:
  "(\<exists>r. fst (resolve
               (run [Get MyController_class, Request (), Get REQUEST]
                  (compile (overridePipe (StubPipe (JObj [''id'' \<mapsto> JNum 1, ''name'' \<mapsto> JStr ''Test User'']))
                     (createTestingModule
                        [UseValue_LoggerService (JestLogger MockLogger_new), Class_GetUserPipe]))))
               GetUserPipe_class) =
          Inr (r, PipeInstance (StubPipe (JObj [''id'' \<mapsto> JNum 1, ''name'' \<mapsto> JStr ''Test User''])))) \<and>
   fst (dispatch_getData
          (compile (overridePipe (StubPipe (JObj [''id'' \<mapsto> JNum 1, ''name'' \<mapsto> JStr ''Test User'']))
             (createTestingModule
                [UseValue_LoggerService (JestLogger MockLogger_new), Class_GetUserPipe]))) ()) =
     Inr (JObj [''message'' \<mapsto> JStr ''Hello user 1''])"
proof -
  let ?ps = "[UseValue_LoggerService (JestLogger MockLogger_new), Class_GetUserPipe]"
  let ?v = "JObj [''id'' \<mapsto> JNum 1, ''name'' \<mapsto> JStr ''Test User'']"
  have a: "provided_LoggerService ?ps = Some (JestLogger MockLogger_new)"
    by (rule provided_by_broken_module(2))
  have b: "get_prop ?v ''id'' = Inr (JNum 1)" by simp
  have c: "get_prop ?v ''name'' = Inr (JStr ''Test User'')" by simp
  have d: "to_string (JNum 1) = Inr ''1''" by (simp add: show_int_def digit_char_def)
  from override_is_what_resolves
         [where p = "StubPipe ?v" and ps = ?ps
            and ops = "[Get MyController_class, Request (), Get REQUEST]"
            and l = "JestLogger MockLogger_new" and v = ?v and uid = "JNum 1"
            and uname = "JStr ''Test User''" and s = "''1''" and ctx = "()"]
       a b c d
  show ?thesis by simp
qed

section \<open>The dispatcher\<close>

text \<open>The binder of \<^verbatim>\<open>@User()\<close> does not call the handler and does not touch the logger.\<close>

lemma bind_User_only_binds:
  "invocations (snd (bind_User m ctx)) = invocations m \<and>
   logger_slot (snd (bind_User m ctx)) = logger_slot m"
  by (auto simp: bind_User_def resolve_GetUserPipe_def resolve_REQUEST_def invocations_def
        split: option.splits prod.splits sum.splits)

lemma run_binders_only_bind:
  assumes "\<forall>b \<in> set bs. \<forall>m ctx. invocations (snd (b m ctx)) = invocations m \<and>
                                 logger_slot (snd (b m ctx)) = logger_slot m"
  shows "invocations (snd (run_binders bs m ctx)) = invocations m \<and>
         logger_slot (snd (run_binders bs m ctx)) = logger_slot m"
  using assms
proof (induction bs arbitrary: m)
  case Nil
  then show ?case by simp
next
  case (Cons b bs)
  have b: "invocations (snd (b m ctx)) = invocations m \<and> logger_slot (snd (b m ctx)) = logger_slot m"
    using Cons.prems by simp
  have rest: "invocations (snd (run_binders bs (snd (b m ctx)) ctx)) = invocations (snd (b m ctx)) \<and>
              logger_slot (snd (run_binders bs (snd (b m ctx)) ctx)) = logger_slot (snd (b m ctx))"
    using Cons.prems by (intro Cons.IH) simp
  show ?case
  proof (cases "b m ctx")
    case (Pair res m')
    with b rest show ?thesis
      by (cases res) (auto split: prod.splits sum.splits)
  qed
qed

lemma run_binders_first_failure:
  assumes "run_binders bs1 m ctx = (Inr vs, m')" and "b m' ctx = (Inl e, m1)"
  shows "run_binders (bs1 @ b # bs2) m ctx = (Inl e, m1)"
  using assms
proof (induction bs1 arbitrary: m vs)
  case Nil
  then show ?case by simp
next
  case (Cons a bs1)
  then show ?case
    by (auto split: prod.splits sum.splits)
qed

lemma run_binders_all_bound:
  "run_binders bs m ctx = (Inr args, m1) \<Longrightarrow> length args = length bs"
proof (induction bs arbitrary: m args)
  case Nil
  then show ?case by simp
next
  case (Cons b bs)
  then show ?case by (auto split: prod.splits sum.splits)
qed

text \<open>
  C7, as the claim states it, fails: a binder can fail inside \<^verbatim>\<open>transform\<close>, and that
  failure reaches the caller as it was thrown, with no binder or parameter context. Here
  \<^verbatim>\<open>REQUEST\<close> is provided, as an object without headers: the binder fails, and what the
  dispatcher hands the caller is the engine's \<open>TypeError\<close>, whose message names neither
  the handler nor the decorator.
\<close>

theorem transform_fault_reaches_caller_untagged:
  "fst (bind_User
          (compile (createTestingModule
             [UseValue_LoggerService (JestLogger MockLogger_new), Class_GetUserPipe,
              UseValue_REQUEST (JObj Map.empty)])) ()) =
     Inl (TypeError ''Cannot read properties of undefined (reading 'x-user-id')'') \<and>
   fst (dispatch_getData
          (compile (createTestingModule
             [UseValue_LoggerService (JestLogger MockLogger_new), Class_GetUserPipe,
              UseValue_REQUEST (JObj Map.empty)])) ()) =
     Inl (TypeError ''Cannot read properties of undefined (reading 'x-user-id')'') \<and>
   \<not> mentions ''Cannot read properties of undefined (reading 'x-user-id')'' ''getData'' \<and>
   \<not> mentions ''Cannot read properties of undefined (reading 'x-user-id')'' ''@User''"
  by (simp add: dispatch_getData_def dispatch_def resolve_MyController_def
        resolve_LoggerService_def bind_User_def resolve_GetUserPipe_def resolve_REQUEST_def
        compile_def createTestingModule_def provided_REQUEST_def provided_LoggerService_def
        provided_GetUserPipe_def transform_def GetUserPipe_new_def User_factory_def quote_def)

text \<open>
  C7, amended. For every list of parameter binders that only bind (they do not call the
  handler and do not touch the logger, as the binder of \<^verbatim>\<open>@User()\<close> does not): if any
  binder fails (with an error of the program, not the marker of a number outside the
  model), the ones before it having produced their values, then whatever binders follow,
  \<^verbatim>\<open>getData\<close> and its \<^verbatim>\<open>logger.assign\<close> call are never invoked (the list of the
  handler's invocations and the logger are as they were) and the failure propagates to
  the caller as the binder raised it: a fault thrown inside \<^verbatim>\<open>transform\<close> carries no
  binder or parameter context. The dispatcher invokes \<^verbatim>\<open>getData\<close> only when every binder
  has produced its value, once, on the first bound value.
\<close>

theorem dispatch_only_after_binding:
  assumes "\<forall>g \<in> set bs. \<forall>m ctx.
             invocations (snd (g m ctx)) = invocations m \<and> logger_slot (snd (g m ctx)) = logger_slot m"
  shows "(bs = bs1 @ b # bs2 \<longrightarrow> run_binders bs1 m ctx = (Inr vs, m') \<longrightarrow>
          b m' ctx = (Inl e, m1) \<longrightarrow> e \<noteq> OutsideModel \<longrightarrow>
            dispatch bs m ctx = (Inl e, m1) \<and>
            invocations m1 = invocations m \<and> logger_slot m1 = logger_slot m) \<and>
         (run_binders bs m ctx = (Inr args, m1) \<longrightarrow>
          resolve_MyController m1 = (Inr (r, c), m2) \<longrightarrow>
            length args = length bs \<and>
            fst (dispatch bs m ctx) = fst (getData c (case args of [] \<Rightarrow> JUndefined | u # us \<Rightarrow> u)) \<and>
            invocations (snd (dispatch bs m ctx)) =
              invocations m @ [case args of [] \<Rightarrow> JUndefined | u # us \<Rightarrow> u])"
proof (intro conjI impI)
  assume bs: "bs = bs1 @ b # bs2"
    and a: "run_binders bs1 m ctx = (Inr vs, m')" and f: "b m' ctx = (Inl e, m1)"
  have all: "run_binders bs m ctx = (Inl e, m1)"
    unfolding bs using a f by (rule run_binders_first_failure)
  then show "dispatch bs m ctx = (Inl e, m1)"
    by (simp add: dispatch_def)
  from run_binders_only_bind [OF assms, of m ctx] all
  show "invocations m1 = invocations m" and "logger_slot m1 = logger_slot m"
    by simp_all
next
  assume a: "run_binders bs m ctx = (Inr args, m1)"
    and c: "resolve_MyController m1 = (Inr (r, c), m2)"
  show "length args = length bs"
    using a by (rule run_binders_all_bound)
  show "fst (dispatch bs m ctx) = fst (getData c (case args of [] \<Rightarrow> JUndefined | u # us \<Rightarrow> u))"
    using a c by (simp add: dispatch_def Let_def split: prod.splits)
  have "invocations m2 = invocations m1"
    using c
    by (auto simp: resolve_MyController_def resolve_LoggerService_def invocations_def
          split: option.splits prod.splits sum.splits)
  moreover have "invocations m1 = invocations m"
    using run_binders_only_bind [OF assms, of m ctx] a by simp
  ultimately show "invocations (snd (dispatch bs m ctx)) =
      invocations m @ [case args of [] \<Rightarrow> JUndefined | u # us \<Rightarrow> u]"
    using a c by (simp add: dispatch_def Let_def invocations_def split: prod.splits)
qed

theorem dispatch_only_after_binding_witness:
  "dispatch [bind_User]
      (compile (createTestingModule
         [UseValue_LoggerService (JestLogger MockLogger_new), Class_GetUserPipe,
          UseValue_REQUEST (JObj Map.empty)])) () =
     (Inl (TypeError ''Cannot read properties of undefined (reading 'x-user-id')''),
      snd (bind_User
             (compile (createTestingModule
                [UseValue_LoggerService (JestLogger MockLogger_new), Class_GetUserPipe,
                 UseValue_REQUEST (JObj Map.empty)])) ())) \<and>
   invocations (snd (bind_User
             (compile (createTestingModule
                [UseValue_LoggerService (JestLogger MockLogger_new), Class_GetUserPipe,
                 UseValue_REQUEST (JObj Map.empty)])) ())) = [] \<and>
   logger_slot (snd (bind_User
             (compile (createTestingModule
                [UseValue_LoggerService (JestLogger MockLogger_new), Class_GetUserPipe,
                 UseValue_REQUEST (JObj Map.empty)])) ())) = None \<and>
   dispatch [bind_User] broken_module () =
     (Inl (BindingError ''@User() user of MyController.getData''
             (MissingProviderError ''REQUEST'' ''GetUserPipe'')), broken_module) \<and>
   invocations broken_module = [] \<and>
   fst (dispatch [bind_User] fixed_module ()) =
     Inr (JObj [''message'' \<mapsto> JStr ''Hello user 1'']) \<and>
   invocations (snd (dispatch [bind_User] fixed_module ())) =
     [JObj [''id'' \<mapsto> JNum 1, ''name'' \<mapsto> JStr ''Test User'']]"
proof -
  let ?m0 = "compile (createTestingModule
         [UseValue_LoggerService (JestLogger MockLogger_new), Class_GetUserPipe,
          UseValue_REQUEST (JObj Map.empty)])"
  let ?b = "bind_User :: TestingModule \<Rightarrow> unit \<Rightarrow> (error + jsval) \<times> TestingModule"
  let ?v = "JObj [''id'' \<mapsto> JNum 1, ''name'' \<mapsto> JStr ''Test User'']"
  have only: "\<forall>g \<in> set [?b]. \<forall>m ctx.
      invocations (snd (g m ctx)) = invocations m \<and> logger_slot (snd (g m ctx)) = logger_slot m"
    by (simp add: bind_User_only_binds)
  have split: "[?b] = [] @ ?b # []" by simp
  have none: "run_binders [] ?m0 () = (Inr [], ?m0)" by simp
  have none': "run_binders [] broken_module () = (Inr [], broken_module)" by simp
  have fails: "?b ?m0 () =
      (Inl (TypeError ''Cannot read properties of undefined (reading 'x-user-id')''),
       snd (?b ?m0 ()))"
    by (simp add: bind_User_def resolve_GetUserPipe_def resolve_REQUEST_def compile_def
          createTestingModule_def provided_REQUEST_def provided_GetUserPipe_def transform_def
          GetUserPipe_new_def User_factory_def quote_def)
  have fails': "?b broken_module () =
      (Inl (BindingError ''@User() user of MyController.getData''
              (MissingProviderError ''REQUEST'' ''GetUserPipe'')), broken_module)"
    by (simp add: bind_User_def resolve_GetUserPipe_def resolve_REQUEST_def broken_module_def
          compile_def createTestingModule_def provided_REQUEST_def provided_GetUserPipe_def)
  have thrown: "TypeError ''Cannot read properties of undefined (reading 'x-user-id')'' \<noteq> OutsideModel"
    "BindingError ''@User() user of MyController.getData''
       (MissingProviderError ''REQUEST'' ''GetUserPipe'') \<noteq> OutsideModel"
    by simp_all
  have m0: "invocations ?m0 = []" "logger_slot ?m0 = None"
    by (simp_all add: invocations_def compile_def createTestingModule_def)
  have mb: "invocations broken_module = []"
    by (simp add: invocations_def broken_module_def compile_def createTestingModule_def)
  have mf: "invocations fixed_module = []"
    by (simp add: invocations_def fixed_module_def compile_def overridePipe_def
          createTestingModule_def)
  have binds: "run_binders [?b] fixed_module () =
      (Inr [?v], snd (run_binders [?b] fixed_module ()))"
    by (simp add: bind_User_def resolve_GetUserPipe_def fixed_module_def compile_def
          overridePipe_def createTestingModule_def User_factory_def)
  have controller: "resolve_MyController (snd (run_binders [?b] fixed_module ())) =
      (Inr (2, \<lparr>logger = JestLogger MockLogger_new\<rparr>),
       snd (resolve_MyController (snd (run_binders [?b] fixed_module ()))))"
    by (simp add: bind_User_def resolve_GetUserPipe_def resolve_MyController_def
          resolve_LoggerService_def fixed_module_def compile_def overridePipe_def
          createTestingModule_def provided_LoggerService_def User_factory_def)
  have handler: "fst (getData \<lparr>logger = JestLogger MockLogger_new\<rparr> ?v) =
      Inr (JObj [''message'' \<mapsto> JStr ''Hello user 1''])"
    by (simp add: getData_def show_int_def digit_char_def)
  from dispatch_only_after_binding [OF only, where ?bs1.0 = "[]" and b = ?b and ?bs2.0 = "[]"
         and m = ?m0 and ctx = "()" and vs = "[]" and m' = ?m0
         and e = "TypeError ''Cannot read properties of undefined (reading 'x-user-id')''"
         and ?m1.0 = "snd (?b ?m0 ())"]
       split none fails thrown(1) m0
  have one: "dispatch [?b] ?m0 () =
      (Inl (TypeError ''Cannot read properties of undefined (reading 'x-user-id')''),
       snd (?b ?m0 ())) \<and>
      invocations (snd (?b ?m0 ())) = [] \<and> logger_slot (snd (?b ?m0 ())) = None"
    by simp
  from dispatch_only_after_binding [OF only, where ?bs1.0 = "[]" and b = ?b and ?bs2.0 = "[]"
         and m = broken_module and ctx = "()" and vs = "[]" and m' = broken_module
         and e = "BindingError ''@User() user of MyController.getData''
                    (MissingProviderError ''REQUEST'' ''GetUserPipe'')"
         and ?m1.0 = broken_module]
       split none' fails' thrown(2) mb
  have two: "dispatch [?b] broken_module () =
      (Inl (BindingError ''@User() user of MyController.getData''
              (MissingProviderError ''REQUEST'' ''GetUserPipe'')), broken_module) \<and>
      invocations broken_module = []"
    by simp
  from dispatch_only_after_binding [OF only, where m = fixed_module and ctx = "()"
         and args = "[?v]" and ?m1.0 = "snd (run_binders [?b] fixed_module ())"
         and r = 2 and c = "\<lparr>logger = JestLogger MockLogger_new\<rparr>"
         and ?m2.0 = "snd (resolve_MyController (snd (run_binders [?b] fixed_module ())))"]
       binds controller handler mf
  have three: "fst (dispatch [?b] fixed_module ()) =
      Inr (JObj [''message'' \<mapsto> JStr ''Hello user 1'']) \<and>
      invocations (snd (dispatch [?b] fixed_module ())) = [?v]"
    by simp
  from one two three show ?thesis by blast
qed

section \<open>The tests' own expectations\<close>

text \<open>
  The fixed test calls \<^verbatim>\<open>controller.getData({ id: 1, name: 'Test' })\<close> on the instance
  and expects \<^verbatim>\<open>logger.assign\<close> to have been called with
  \<^verbatim>\<open>{ userId: 1, userName: 'Test' }\<close>.
\<close>

lemma getData_called_directly:
  "getData \<lparr>logger = JestLogger MockLogger_new\<rparr> (JObj [''id'' \<mapsto> JNum 1, ''name'' \<mapsto> JStr ''Test'']) =
     (Inr (JObj [''message'' \<mapsto> JStr ''Hello user 1'']),
      \<lparr>logger = JestLogger \<lparr>assign_calls = [[''userId'' \<mapsto> JNum 1, ''userName'' \<mapsto> JStr ''Test'']],
                             log_calls = []\<rparr>\<rparr>)"
  by (simp add: getData_def show_int_def digit_char_def MockLogger_new_def)

text \<open>Through the module of the fixed test, where the stub stands for the pipe, the route
  succeeds; the stub's \<^verbatim>\<open>transform\<close> ran and then the handler; the module's logger, the
  instance the controller was given, has recorded the call; the request was never
  resolved.\<close>

lemma dispatch_fixed_module:
  "fst (dispatch_getData fixed_module ctx) = Inr (JObj [''message'' \<mapsto> JStr ''Hello user 1'']) \<and>
   events (snd (dispatch_getData fixed_module ctx)) =
     [Transformed JUndefined,
      Invoked (JObj [''id'' \<mapsto> JNum 1, ''name'' \<mapsto> JStr ''Test User''])] \<and>
   fst (resolve (snd (dispatch_getData fixed_module ctx)) LoggerService_class) =
     Inr (1, LoggerInstance
               (JestLogger \<lparr>assign_calls = [[''userId'' \<mapsto> JNum 1, ''userName'' \<mapsto> JStr ''Test User'']],
                            log_calls = []\<rparr>)) \<and>
   request_slot (snd (dispatch_getData fixed_module ctx)) = None"
  by (simp add: dispatch_getData_def dispatch_def resolve_def resolve_MyController_def
        resolve_LoggerService_def bind_User_def resolve_GetUserPipe_def fixed_module_def
        compile_def overridePipe_def createTestingModule_def provided_LoggerService_def
        getData_def show_int_def digit_char_def MockLogger_new_def User_factory_def)

text \<open>With \<^verbatim>\<open>REQUEST\<close> provided and no override, the real pipe reads the header and the
  handler receives what it returns.\<close>

lemma dispatch_request_provided:
  "fst (dispatch_getData
          (compile (createTestingModule
             [UseValue_LoggerService (JestLogger MockLogger_new), Class_GetUserPipe,
              UseValue_REQUEST (JObj [''headers'' \<mapsto> JObj [''x-user-id'' \<mapsto> JStr ''1'']])])) ctx) =
     Inr (JObj [''message'' \<mapsto> JStr ''Hello user 1'']) \<and>
   logger_slot (snd (dispatch_getData
          (compile (createTestingModule
             [UseValue_LoggerService (JestLogger MockLogger_new), Class_GetUserPipe,
              UseValue_REQUEST (JObj [''headers'' \<mapsto> JObj [''x-user-id'' \<mapsto> JStr ''1'']])])) ctx)) =
     Some (2, JestLogger \<lparr>assign_calls = [[''userId'' \<mapsto> JNum 1, ''userName'' \<mapsto> JStr ''Test User'']],
                           log_calls = []\<rparr>) \<and>
   events (snd (dispatch_getData
          (compile (createTestingModule
             [UseValue_LoggerService (JestLogger MockLogger_new), Class_GetUserPipe,
              UseValue_REQUEST (JObj [''headers'' \<mapsto> JObj [''x-user-id'' \<mapsto> JStr ''1'']])])) ctx)) =
     [Transformed JUndefined,
      Invoked (JObj [''id'' \<mapsto> JNum 1, ''name'' \<mapsto> JStr ''Test User''])]"
  by (simp add: dispatch_getData_def dispatch_def resolve_MyController_def
        resolve_LoggerService_def bind_User_def resolve_GetUserPipe_def resolve_REQUEST_def
        compile_def createTestingModule_def provided_REQUEST_def provided_LoggerService_def
        provided_GetUserPipe_def transform_def GetUserPipe_new_def parseInt_10_one
        getData_def show_int_def digit_char_def MockLogger_new_def User_factory_def)

text \<open>The sibling path: a controller's missing dependency is reported, by name.\<close>

lemma missing_LoggerService_is_reported:
  "fst (resolve_MyController (compile (createTestingModule [Class_GetUserPipe]))) =
     Inl (MissingProviderError ''LoggerService'' ''MyController'')"
  by (simp add: resolve_MyController_def resolve_LoggerService_def compile_def
        createTestingModule_def provided_LoggerService_def)

text \<open>A header beyond the integers that a Number holds exactly is not decided here: the
  result is the marker, not a value that the program would not compute.\<close>

lemma parseInt_10_beyond_exact_integers:
  "parseInt_10 (JStr ''9007199254740993'') = Inl OutsideModel"
  "to_string (JNum 1000000000000000000000) = Inl OutsideModel"
  by (simp_all add: parseInt_10_def is_space_def is_digit_def digits_value_def)

end
